theory Spec2Isabelle
  imports Complex_Main "HOL-Library.Char_ord" "HOL-Library.List_Lexorder" "HOL-Library.AList"
    "HOL-Library.Multiset"
begin

section \<open>Sales register dashboard (app.py)\<close>

text \<open>
  The script loads one CSV export into a pandas frame (\<open>load_data\<close>), narrows it with the
  sidebar filters (\<open>filtered_df\<close>) and computes one aggregate per chart. The frame
  operations of pandas the script calls (\<open>groupby\<close>, \<open>sum\<close>, \<open>nlargest\<close>, \<open>reindex\<close>,
  \<open>resample\<close>, \<open>sort_values\<close>, \<open>nunique\<close>, \<open>isin\<close>, \<open>dropna\<close>, \<open>fillna\<close>) are written out as
  list functions with their documented behaviour. Amounts are exact rationals: no claim
  below depends on floating-point rounding.
\<close>

subsection \<open>Errors\<close>

datatype error =
  FileNotFoundError
  | KeyError string
  | TypeError
  | ZeroDivisionError

subsection \<open>Timestamps and the calendar fields derived from them\<close>

text \<open>
  \<open>Posting_Date\<close> holds calendar dates (the export writes DD-MM-YY or DD-MM-YYYY, with no
  time of day). Timestamps compare chronologically.
\<close>

record timestamp =
  year :: int
  month :: nat
  day :: nat

definition ts_le :: "timestamp \<Rightarrow> timestamp \<Rightarrow> bool" where
  "ts_le a b \<longleftrightarrow>
     year a < year b \<or>
     (year a = year b \<and> (month a < month b \<or> (month a = month b \<and> day a \<le> day b)))"

text \<open>Days since 1970-01-01 of a date of the proleptic Gregorian calendar.\<close>

definition days_from_civil :: "timestamp \<Rightarrow> int" where
  "days_from_civil t =
     (let y = (if month t \<le> 2 then year t - 1 else year t);
          era = y div 400;
          yoe = y - era * 400;
          mp = (if month t > 2 then int (month t) - 3 else int (month t) + 9);
          doy = (153 * mp + 2) div 5 + int (day t) - 1;
          doe = yoe * 365 + yoe div 4 - yoe div 100 + doy
      in era * 146097 + doe - 719468)"

definition day_names :: "string list" where
  "day_names = [''Monday'', ''Tuesday'', ''Wednesday'', ''Thursday'', ''Friday'', ''Saturday'', ''Sunday'']"

text \<open>\<open>dt.day_name()\<close>: 1970-01-01 was a Thursday.\<close>

definition day_name :: "timestamp \<Rightarrow> string" where
  "day_name t = day_names ! nat ((days_from_civil t + 3) mod 7)"

definition month_names :: "string list" where
  "month_names = [''January'', ''February'', ''March'', ''April'', ''May'', ''June'', ''July'',
     ''August'', ''September'', ''October'', ''November'', ''December'']"

text \<open>\<open>dt.month_name()\<close>; a timestamp always has a month from 1 to 12.\<close>

definition month_name :: "timestamp \<Rightarrow> string" where
  "month_name t = (if 1 \<le> month t \<and> month t \<le> 12 then month_names ! (month t - 1) else [])"

definition quarter :: "timestamp \<Rightarrow> nat" where
  "quarter t = (month t - 1) div 3 + 1"

definition digit_char :: "nat \<Rightarrow> char" where
  "digit_char n = ''0123456789'' ! (n mod 10)"

fun str_nat :: "nat \<Rightarrow> string" where
  "str_nat n = (if n < 10 then [digit_char n] else str_nat (n div 10) @ [digit_char (n mod 10)])"

declare str_nat.simps [simp del]

text \<open>\<open>dt.quarter.apply(lambda x: f'Q{x}')\<close>\<close>

definition quarter_label :: "timestamp \<Rightarrow> string" where
  "quarter_label t = ''Q'' @ str_nat (quarter t)"

subsection \<open>The normalized table\<close>

text \<open>
  One row of the frame \<open>load_data\<close> returns, with the columns the dashboard reads. A
  categorical cell may be missing (\<open>None\<close> is pandas' NaN); further columns of the export
  ride along in the record's extension.
\<close>

record txn =
  Posting_Date :: timestamp
  Final_Line_Amount :: rat
  Sale_Over_1000 :: bool
  Year :: int
  Month :: string
  Day_of_Week :: string
  Quarter :: string
  Document_No :: "string option"
  Region :: "string option"
  Product_Group :: "string option"
  Sales_Channel :: "string option"
  Customer_Name :: "string option"
  Quantity :: rat
  Unit_Price :: rat

text \<open>
  A row as \<open>load_data\<close> leaves it: the derived columns are computed from the date and the
  amount as lines 58 to 64 do.
\<close>

definition normalized_row ::
  "timestamp \<Rightarrow> rat \<Rightarrow> string option \<Rightarrow> string option \<Rightarrow> string option \<Rightarrow> string option \<Rightarrow>
   string option \<Rightarrow> rat \<Rightarrow> rat \<Rightarrow> txn" where
  "normalized_row d amount doc region pg channel customer qty price =
     \<lparr>Posting_Date = d, Final_Line_Amount = amount, Sale_Over_1000 = (amount > 1000),
      Year = year d, Month = month_name d, Day_of_Week = day_name d,
      Quarter = quarter_label d, Document_No = doc, Region = region, Product_Group = pg,
      Sales_Channel = channel, Customer_Name = customer, Quantity = qty, Unit_Price = price\<rparr>"

subsection \<open>Sidebar filters (lines 99 to 151)\<close>

text \<open>
  What the sidebar widgets return: the date input gives a tuple (two dates once the range
  is picked, fewer while it is being picked), each multiselect a list of labels in which
  \<open>'All'\<close> stands for no restriction, the slider a pair of bounds.
\<close>

record criteria =
  date_range :: "timestamp list"
  selected_regions :: "string list"
  selected_product_groups :: "string list"
  selected_sales_channels :: "string list"
  amount_range :: "rat \<times> rat"

text \<open>\<open>Series.isin\<close> against a list of labels: a missing cell is in no such list.\<close>

definition isin :: "string option \<Rightarrow> string list \<Rightarrow> bool" where
  "isin v sel = (case v of None \<Rightarrow> False | Some s \<Rightarrow> s \<in> set sel)"

definition date_filter :: "criteria \<Rightarrow> 'a txn_scheme list \<Rightarrow> 'a txn_scheme list" where
  "date_filter c df =
     (case date_range c of
        [start_date, end_date] \<Rightarrow>
          filter (\<lambda>r. ts_le start_date (Posting_Date r) \<and> ts_le (Posting_Date r) end_date) df
      | _ \<Rightarrow> df)"

definition region_filter :: "criteria \<Rightarrow> 'a txn_scheme list \<Rightarrow> 'a txn_scheme list" where
  "region_filter c df =
     (if ''All'' \<notin> set (selected_regions c)
      then filter (\<lambda>r. isin (Region r) (selected_regions c)) df else df)"

definition product_group_filter :: "criteria \<Rightarrow> 'a txn_scheme list \<Rightarrow> 'a txn_scheme list" where
  "product_group_filter c df =
     (if ''All'' \<notin> set (selected_product_groups c)
      then filter (\<lambda>r. isin (Product_Group r) (selected_product_groups c)) df else df)"

definition sales_channel_filter :: "criteria \<Rightarrow> 'a txn_scheme list \<Rightarrow> 'a txn_scheme list" where
  "sales_channel_filter c df =
     (if ''All'' \<notin> set (selected_sales_channels c)
      then filter (\<lambda>r. isin (Sales_Channel r) (selected_sales_channels c)) df else df)"

definition amount_filter :: "criteria \<Rightarrow> 'a txn_scheme list \<Rightarrow> 'a txn_scheme list" where
  "amount_filter c df =
     filter (\<lambda>r. fst (amount_range c) \<le> Final_Line_Amount r \<and>
                 Final_Line_Amount r \<le> snd (amount_range c)) df"

text \<open>
  The script's pipeline: the date filter first; the three multiselects and the slider only
  while rows are left; an empty frame when nothing was loaded.
\<close>

definition filtered_df :: "criteria \<Rightarrow> 'a txn_scheme list \<Rightarrow> 'a txn_scheme list" where
  "filtered_df c df =
     (if df \<noteq> [] then
        (let f0 = date_filter c df in
         if f0 \<noteq> [] then
           (let f3 = sales_channel_filter c (product_group_filter c (region_filter c f0)) in
            if f3 \<noteq> [] then amount_filter c f3 else f3)
         else f0)
      else [])"

text \<open>One filter of the sidebar, to apply them in any order.\<close>

datatype filter_kind = ByDate | ByRegion | ByProductGroup | BySalesChannel | ByAmount

fun apply_filter :: "criteria \<Rightarrow> filter_kind \<Rightarrow> 'a txn_scheme list \<Rightarrow> 'a txn_scheme list" where
  "apply_filter c ByDate df = date_filter c df"
| "apply_filter c ByRegion df = region_filter c df"
| "apply_filter c ByProductGroup df = product_group_filter c df"
| "apply_filter c BySalesChannel df = sales_channel_filter c df"
| "apply_filter c ByAmount df = amount_filter c df"

text \<open>The rows one filter keeps, as a predicate on the row.\<close>

fun keeps :: "criteria \<Rightarrow> filter_kind \<Rightarrow> 'a txn_scheme \<Rightarrow> bool" where
  "keeps c ByDate r =
     (case date_range c of
        [start_date, end_date] \<Rightarrow> ts_le start_date (Posting_Date r) \<and> ts_le (Posting_Date r) end_date
      | _ \<Rightarrow> True)"
| "keeps c ByRegion r = (''All'' \<in> set (selected_regions c) \<or> isin (Region r) (selected_regions c))"
| "keeps c ByProductGroup r =
     (''All'' \<in> set (selected_product_groups c) \<or> isin (Product_Group r) (selected_product_groups c))"
| "keeps c BySalesChannel r =
     (''All'' \<in> set (selected_sales_channels c) \<or> isin (Sales_Channel r) (selected_sales_channels c))"
| "keeps c ByAmount r =
     (fst (amount_range c) \<le> Final_Line_Amount r \<and> Final_Line_Amount r \<le> snd (amount_range c))"

text \<open>
  \<open>stricter c' c\<close>: the criteria \<open>c'\<close> add a date range to \<open>c\<close> or narrow the one it has,
  restrict a multiselect that \<open>c\<close> leaves at \<open>'All'\<close> or shrink its selection, and narrow the
  amount range.
\<close>

definition stricter :: "criteria \<Rightarrow> criteria \<Rightarrow> bool" where
  "stricter c' c \<longleftrightarrow>
     (case date_range c of
        [s, e] \<Rightarrow> (case date_range c' of [s', e'] \<Rightarrow> ts_le s s' \<and> ts_le e' e | _ \<Rightarrow> False)
      | _ \<Rightarrow> True) \<and>
     (''All'' \<in> set (selected_regions c) \<or> set (selected_regions c') \<subseteq> set (selected_regions c)) \<and>
     (''All'' \<in> set (selected_product_groups c) \<or>
        set (selected_product_groups c') \<subseteq> set (selected_product_groups c)) \<and>
     (''All'' \<in> set (selected_sales_channels c) \<or>
        set (selected_sales_channels c') \<subseteq> set (selected_sales_channels c)) \<and>
     fst (amount_range c) \<le> fst (amount_range c') \<and> snd (amount_range c') \<le> snd (amount_range c)"

subsection \<open>Aggregations\<close>

text \<open>
  \<open>df.groupby(key)[metric].sum()\<close>: one entry per key present, in ascending key order
  (\<open>sort=True\<close>); rows whose key is missing are left out (\<open>dropna=True\<close>).
\<close>

definition group_keys :: "('r \<Rightarrow> string option) \<Rightarrow> 'r list \<Rightarrow> string list" where
  "group_keys key df = sort (remdups (List.map_filter key df))"

definition groupby_sum :: "('r \<Rightarrow> string option) \<Rightarrow> ('r \<Rightarrow> rat) \<Rightarrow> 'r list \<Rightarrow> (string \<times> rat) list" where
  "groupby_sum key metric df =
     map (\<lambda>k. (k, sum_list (map metric (filter (\<lambda>r. key r = Some k) df)))) (group_keys key df)"


text \<open>
  \<open>Series.nlargest(n)\<close> with \<open>keep='first'\<close>: the first \<open>n\<close> entries in descending order of
  value, entries of equal value in the order the series has them.
\<close>

definition nlargest :: "nat \<Rightarrow> ('k \<times> rat) list \<Rightarrow> ('k \<times> rat) list" where
  "nlargest n ser = take n (sort_key (\<lambda>kv. - snd kv) ser)"

definition product_sales :: "'a txn_scheme list \<Rightarrow> (string \<times> rat) list" where
  "product_sales df = nlargest 10 (groupby_sum Product_Group Final_Line_Amount df)"




text \<open>
  \<open>set_index('Posting_Date').resample('M')[metric].sum()\<close>: one bin per calendar month
  from the month of the earliest row to the month of the latest, labelled with the
  month's last day; a bin without rows sums to 0. No rows, no bins.
\<close>

definition month_index :: "timestamp \<Rightarrow> int" where
  "month_index t = year t * 12 + int (month t) - 1"

definition is_leap :: "int \<Rightarrow> bool" where
  "is_leap y \<longleftrightarrow> y mod 4 = 0 \<and> (y mod 100 \<noteq> 0 \<or> y mod 400 = 0)"

definition days_in_month :: "int \<Rightarrow> nat \<Rightarrow> nat" where
  "days_in_month y m =
     (if m = 2 then (if is_leap y then 29 else 28)
      else if m \<in> {4, 6, 9, 11} then 30 else 31)"

definition month_end :: "int \<Rightarrow> timestamp" where
  "month_end k =
     \<lparr>year = k div 12, month = nat (k mod 12) + 1,
      day = days_in_month (k div 12) (nat (k mod 12) + 1)\<rparr>"

definition resample_M_sum :: "('a txn_scheme \<Rightarrow> rat) \<Rightarrow> 'a txn_scheme list \<Rightarrow> (timestamp \<times> rat) list" where
  "resample_M_sum metric df =
     (if df = [] then []
      else
        (let ks = map (\<lambda>r. month_index (Posting_Date r)) df in
         map (\<lambda>k. (month_end k,
                    sum_list (map metric (filter (\<lambda>r. month_index (Posting_Date r) = k) df))))
           [Min (set ks) .. Max (set ks)]))"

definition monthly_sales :: "'a txn_scheme list \<Rightarrow> (timestamp \<times> rat) list" where
  "monthly_sales df = resample_M_sum Final_Line_Amount df"


text \<open>
  The quarterly chart: group by the \<open>Quarter\<close> label, turn the labels into an ordered
  categorical over \<open>quarter_order\<close> (a label outside the categories becomes NaN, here
  \<open>None\<close>) and sort by it, NaN last.
\<close>

definition quarter_order :: "string list" where
  "quarter_order = [''Q1'', ''Q2'', ''Q3'', ''Q4'']"

fun index_of :: "'a list \<Rightarrow> 'a \<Rightarrow> nat" where
  "index_of [] x = 0"
| "index_of (y # ys) x = (if x = y then 0 else Suc (index_of ys x))"

definition categorical :: "string list \<Rightarrow> string \<Rightarrow> string option" where
  "categorical cats x = (if x \<in> set cats then Some x else None)"

definition cat_code :: "string list \<Rightarrow> string option \<Rightarrow> nat" where
  "cat_code cats x = (case x of None \<Rightarrow> length cats | Some s \<Rightarrow> index_of cats s)"

definition quarterly_sales :: "'a txn_scheme list \<Rightarrow> (string option \<times> rat) list" where
  "quarterly_sales df =
     sort_key (\<lambda>kv. cat_code quarter_order (fst kv))
       (map (\<lambda>kv. (categorical quarter_order (fst kv), snd kv))
          (groupby_sum (\<lambda>r. Some (Quarter r)) Final_Line_Amount df))"

text \<open>
  The day-of-week chart: \<open>Series.reindex(labels)\<close> returns one entry per requested label,
  in the order requested, with the series' value where the series has the label and NaN
  (\<open>None\<close>) where it has not.
\<close>

definition day_of_week_order :: "string list" where
  "day_of_week_order =
     [''Monday'', ''Tuesday'', ''Wednesday'', ''Thursday'', ''Friday'', ''Saturday'', ''Sunday'']"

definition reindex :: "('k \<times> rat) list \<Rightarrow> 'k list \<Rightarrow> ('k \<times> rat option) list" where
  "reindex ser labels = map (\<lambda>l. (l, map_of ser l)) labels"

definition daily_sales :: "'a txn_scheme list \<Rightarrow> (string \<times> rat option) list" where
  "daily_sales df =
     reindex (groupby_sum (\<lambda>r. Some (Day_of_Week r)) Final_Line_Amount df) day_of_week_order"

subsection \<open>Overview metrics (lines 166 to 188)\<close>

text \<open>\<open>Series.nunique()\<close>: the number of distinct values, missing cells not counted.\<close>

definition nunique :: "'v option list \<Rightarrow> nat" where
  "nunique xs = length (remdups (List.map_filter id xs))"

text \<open>Python's \<open>/\<close> on two integers raises on a zero divisor.\<close>

definition true_div :: "nat \<Rightarrow> nat \<Rightarrow> error + rat" where
  "true_div a b = (if b = 0 then Inl ZeroDivisionError else Inr (of_nat a / of_nat b))"

definition total_transactions :: "'a txn_scheme list \<Rightarrow> nat" where
  "total_transactions df = nunique (map Document_No df)"

definition sales_over_1000 :: "'a txn_scheme list \<Rightarrow> nat" where
  "sales_over_1000 df = length (filter Sale_Over_1000 df)"

definition percentage_over_1000 :: "'a txn_scheme list \<Rightarrow> error + rat" where
  "percentage_over_1000 df =
     (if total_transactions df > 0
      then (case true_div (sales_over_1000 df) (total_transactions df) of
              Inl e \<Rightarrow> Inl e
            | Inr q \<Rightarrow> Inr (q * 100))
      else Inr 0)"

subsection \<open>The page (lines 149 to 478)\<close>








subsection \<open>Frames as \<open>read_csv\<close> returns them\<close>

text \<open>
  A number of a numeric column: finite, or one of the two infinities of float64. (NaN is
  the missing cell below.)
\<close>

datatype number = Finite rat | PlusInfinity | MinusInfinity

text \<open>
  A cell of a frame: a string (a cell of an object column), a number, a boolean, a
  timestamp, or missing (NaN, NaT). A frame is its columns in order, each a name and the
  cells of its rows; \<open>df[c] = xs\<close> replaces the column \<open>c\<close> in place or appends it.
\<close>

datatype cell = Str string | Num number | Flag bool | Stamp timestamp | NaN

type_synonym frame = "(string \<times> cell list) list"

definition is_Str :: "cell \<Rightarrow> bool" where
  "is_Str x = (case x of Str s \<Rightarrow> True | _ \<Rightarrow> False)"

definition is_Num :: "cell \<Rightarrow> bool" where
  "is_Num x = (case x of Num v \<Rightarrow> True | _ \<Rightarrow> False)"

definition is_Stamp :: "cell \<Rightarrow> bool" where
  "is_Stamp x = (case x of Stamp t \<Rightarrow> True | _ \<Rightarrow> False)"

text \<open>
  \<open>str.strip()\<close> removes leading and trailing whitespace. A \<open>char\<close> is a code point below
  256 here, and these are the code points below 256 for which \<open>str.isspace\<close> holds: tab to
  carriage return, the four separators 0x1C to 0x1F, the space, NEL (0x85) and the
  no-break space (0xA0).
\<close>

definition is_space :: "char \<Rightarrow> bool" where
  "is_space c \<longleftrightarrow> c \<in> set [CHR '' '', CHR 0x09, CHR 0x0A, CHR 0x0B, CHR 0x0C, CHR 0x0D,
     CHR 0x1C, CHR 0x1D, CHR 0x1E, CHR 0x1F, CHR 0x85, CHR 0xA0]"

definition strip :: "string \<Rightarrow> string" where
  "strip s = rev (dropWhile is_space (rev (dropWhile is_space s)))"

subsection \<open>The loader (lines 14 to 90)\<close>

text \<open>Lines 24 to 48: strip the header names, then rename the known ones.\<close>

definition column_renames :: "(string \<times> string) list" where
  "column_renames =
     [(''Final Line Amount (A-B+C)'', ''Final_Line_Amount''),
      (''Posting Date'', ''Posting_Date''),
      (''Sell to State'', ''Region''),
      (''Product Group'', ''Product_Group''),
      (''Customer Name'', ''Customer_Name''),
      (''MRP Category'', ''MRP_Category''),
      (''Gender'', ''Gender''),
      (''Brands'', ''Brand''),
      (''Channel'', ''Sales_Channel''),
      (''Item Description'', ''Item_Description''),
      (''Sales Article'', ''Sales_Article''),
      (''Quantity'', ''Quantity''),
      (''Unit Price'', ''Unit_Price''),
      (''GL Account Code'', ''GL_Account_Code''),
      (''Account Name'', ''Account_Name''),
      (''ASM Name'', ''ASM_Name''),
      (''Item Category'', ''Item_Category''),
      (''Product Type'', ''Product_Type''),
      (''Online Store'', ''Online_Store''),
      (''Company Name'', ''Company_Name'')]"

definition rename_column :: "string \<Rightarrow> string" where
  "rename_column n = (case map_of column_renames n of Some m \<Rightarrow> m | None \<Rightarrow> n)"

definition standardize_columns :: "frame \<Rightarrow> frame" where
  "standardize_columns raw = map (\<lambda>(n, col). (rename_column (strip n), col)) raw"

text \<open>
  Lines 52 to 55: \<open>pd.to_datetime(..., errors='coerce', dayfirst=True)\<close> turns every cell
  of \<open>Posting_Date\<close> into a timestamp or NaT, and \<open>dropna\<close> drops the rows where it is NaT,
  in every column. The date parser is pandas' own and is a parameter here; \<open>df[c]\<close> on a
  column the frame does not have raises \<open>KeyError\<close>.
\<close>

definition select :: "bool list \<Rightarrow> 'a list \<Rightarrow> 'a list" where
  "select keep xs = map snd (filter fst (zip keep xs))"

definition dropna :: "cell list \<Rightarrow> frame \<Rightarrow> frame" where
  "dropna key_col df = map (\<lambda>(n, col). (n, select (map (\<lambda>x. x \<noteq> NaN) key_col) col)) df"

definition parse_dates :: "(cell \<Rightarrow> timestamp option) \<Rightarrow> frame \<Rightarrow> error + frame" where
  "parse_dates to_datetime df =
     (case map_of df ''Posting_Date'' of
        None \<Rightarrow> Inl (KeyError ''Posting_Date'')
      | Some raw_dates \<Rightarrow>
          (let parsed = map (\<lambda>x. case to_datetime x of Some t \<Rightarrow> Stamp t | None \<Rightarrow> NaN) raw_dates
           in Inr (dropna parsed (AList.update ''Posting_Date'' parsed df))))"

text \<open>
  Lines 58 to 64: the derived columns. \<open>df['Final_Line_Amount'] > 1000\<close> runs on the column
  as \<open>read_csv\<close> left it: on a number it is the comparison, on a missing cell it is false,
  and on a string Python raises \<open>TypeError\<close> (\<open>'>'\<close> is not supported between \<open>str\<close> and
  \<open>int\<close>).
\<close>

definition gt_1000 :: "number \<Rightarrow> bool" where
  "gt_1000 v = (case v of Finite q \<Rightarrow> q > 1000 | PlusInfinity \<Rightarrow> True | MinusInfinity \<Rightarrow> False)"

definition over_1000 :: "cell \<Rightarrow> cell" where
  "over_1000 x = (case x of Num v \<Rightarrow> Flag (gt_1000 v) | _ \<Rightarrow> Flag False)"

definition dt_field :: "(timestamp \<Rightarrow> cell) \<Rightarrow> cell \<Rightarrow> cell" where
  "dt_field f x = (case x of Stamp t \<Rightarrow> f t | _ \<Rightarrow> NaN)"

definition derive_columns :: "frame \<Rightarrow> error + frame" where
  "derive_columns df =
     (case map_of df ''Final_Line_Amount'' of
        None \<Rightarrow> Inl (KeyError ''Final_Line_Amount'')
      | Some amounts \<Rightarrow>
          if list_ex is_Str amounts then Inl TypeError
          else
            (case map_of df ''Posting_Date'' of
               None \<Rightarrow> Inl (KeyError ''Posting_Date'')
             | Some dates \<Rightarrow>
                 Inr (AList.update ''Quarter'' (map (dt_field (\<lambda>t. Str (quarter_label t))) dates)
                     (AList.update ''Day_of_Week'' (map (dt_field (\<lambda>t. Str (day_name t))) dates)
                     (AList.update ''Month'' (map (dt_field (\<lambda>t. Str (month_name t))) dates)
                     (AList.update ''Year'' (map (dt_field (\<lambda>t. Num (Finite (of_int (year t))))) dates)
                     (AList.update ''Sale_Over_1000'' (map over_1000 amounts) df)))))))"

text \<open>
  Lines 68 to 82: the numeric columns. Line 78 prints every cell with \<open>astype(str)\<close>,
  removes every comma and strips; line 79 parses the text with
  \<open>pd.to_numeric(..., errors='coerce')\<close>, which gives NaN for a text it cannot read. A string
  prints as itself, a missing cell as \<open>nan\<close>, a boolean as \<open>True\<close> or \<open>False\<close>, a timestamp as
  its date. How Python prints a number (\<open>num_str\<close>) and pandas' numeric parser
  (\<open>to_numeric\<close>, \<open>None\<close> where it gives NaN) are the libraries' own and are parameters here:
  nothing below assumes which texts the parser reads.
\<close>

definition numeric_cols :: "string list" where
  "numeric_cols =
     [''Quantity'', ''Unit_Price'', ''Line Discount'', ''Line Amount (Qty * Unit Unit_Price) -A'',
      ''Invoice Discount Amount-B'', ''Final_Line_Amount'', ''GST Base Amount'',
      ''GST Percentage'', ''Total GST Amount'', ''IGST Amount'', ''IGST Per'',
      ''SGST Amount'', ''SGST Per'', ''CGST Amount'', ''CGST Per'', ''TDS Amount'']"

definition pad2 :: "nat \<Rightarrow> string" where
  "pad2 n = (if n < 10 then ''0'' @ str_nat n else str_nat n)"

definition date_str :: "timestamp \<Rightarrow> string" where
  "date_str t =
     (if year t < 0 then ''-'' else []) @
     replicate (4 - length (str_nat (nat \<bar>year t\<bar>))) CHR ''0'' @ str_nat (nat \<bar>year t\<bar>) @
     ''-'' @ pad2 (month t) @ ''-'' @ pad2 (day t)"

definition astype_str :: "(number \<Rightarrow> string) \<Rightarrow> cell \<Rightarrow> string" where
  "astype_str num_str x =
     (case x of
        Str s \<Rightarrow> s
      | Num v \<Rightarrow> num_str v
      | Flag b \<Rightarrow> (if b then ''True'' else ''False'')
      | Stamp t \<Rightarrow> date_str t
      | NaN \<Rightarrow> ''nan'')"

text \<open>Lines 78 and 79 on one cell.\<close>

definition coerce_cell :: "(number \<Rightarrow> string) \<Rightarrow> (string \<Rightarrow> number option) \<Rightarrow> cell \<Rightarrow> cell" where
  "coerce_cell num_str to_numeric x =
     (case to_numeric (strip (filter (\<lambda>c. c \<noteq> CHR '','') (astype_str num_str x))) of
        Some v \<Rightarrow> Num v
      | None \<Rightarrow> NaN)"

text \<open>\<open>fillna(0)\<close> on one cell.\<close>

definition fillna_cell :: "cell \<Rightarrow> cell" where
  "fillna_cell x = (if x = NaN then Num (Finite 0) else x)"

text \<open>The loop body of lines 74 to 79, guarded by \<open>if col in df.columns\<close>.\<close>

definition coerce_column ::
  "(number \<Rightarrow> string) \<Rightarrow> (string \<Rightarrow> number option) \<Rightarrow> string \<Rightarrow> frame \<Rightarrow> frame" where
  "coerce_column num_str to_numeric c df =
     (case map_of df c of
        Some xs \<Rightarrow> AList.update c (map (coerce_cell num_str to_numeric) xs) df
      | None \<Rightarrow> df)"

definition fillna_column :: "string \<Rightarrow> frame \<Rightarrow> frame" where
  "fillna_column c df =
     (case map_of df c of
        Some xs \<Rightarrow> AList.update c (map fillna_cell xs) df
      | None \<Rightarrow> df)"

text \<open>
  The loop, then line 82: \<open>df[numeric_cols]\<close> raises \<open>KeyError\<close> when one of the declared
  columns is not in the frame.
\<close>

definition coerce_numeric ::
  "(number \<Rightarrow> string) \<Rightarrow> (string \<Rightarrow> number option) \<Rightarrow> frame \<Rightarrow> error + frame" where
  "coerce_numeric num_str to_numeric df =
     (let df = fold (coerce_column num_str to_numeric) numeric_cols df in
      case find (\<lambda>c. c \<notin> set (map fst df)) numeric_cols of
        Some c \<Rightarrow> Inl (KeyError c)
      | None \<Rightarrow> Inr (fold fillna_column numeric_cols df))"

text \<open>
  \<open>load_data\<close>: \<open>None\<close> for the file when \<open>EA.csv\<close> does not exist. Every exception ends in
  the handlers of lines 85 to 90, which report it and stop the script: the loader returns
  no frame then.
\<close>

definition load_data ::
  "(cell \<Rightarrow> timestamp option) \<Rightarrow> (number \<Rightarrow> string) \<Rightarrow> (string \<Rightarrow> number option) \<Rightarrow>
   frame option \<Rightarrow> error + frame" where
  "load_data to_datetime num_str to_numeric csv =
     (case csv of
        None \<Rightarrow> Inl FileNotFoundError
      | Some raw \<Rightarrow>
          (case parse_dates to_datetime (standardize_columns raw) of
             Inl e \<Rightarrow> Inl e
           | Inr df \<Rightarrow>
               (case derive_columns df of
                  Inl e \<Rightarrow> Inl e
                | Inr df \<Rightarrow> coerce_numeric num_str to_numeric df)))"

subsection \<open>Sample readings and a sample export\<close>

text \<open>
  For evaluating the loader on sample files: the reading of plain decimal notation (an
  optional sign, digits, an optional point and digits, at least one digit), and the way
  Python prints the two amounts of the sample export.
\<close>

definition is_digit :: "char \<Rightarrow> bool" where
  "is_digit c \<longleftrightarrow> CHR ''0'' \<le> c \<and> c \<le> CHR ''9''"

definition digits_value :: "string \<Rightarrow> nat" where
  "digits_value ds = foldl (\<lambda>acc c. 10 * acc + (of_char c - 48)) 0 ds"

definition parse_unsigned :: "string \<Rightarrow> rat option" where
  "parse_unsigned s =
     (let ip = takeWhile is_digit s in
      case dropWhile is_digit s of
        [] \<Rightarrow> if ip = [] then None else Some (of_nat (digits_value ip))
      | c # fp \<Rightarrow>
          if c = CHR ''.'' \<and> list_all is_digit fp \<and> (ip \<noteq> [] \<or> fp \<noteq> [])
          then Some (of_nat (digits_value ip) + of_nat (digits_value fp) / 10 ^ length fp)
          else None)"

definition to_numeric_decimal :: "string \<Rightarrow> number option" where
  "to_numeric_decimal s =
     map_option Finite
       (case s of
          [] \<Rightarrow> None
        | c # u \<Rightarrow>
            if c = CHR ''-'' then map_option uminus (parse_unsigned u)
            else if c = CHR ''+'' then parse_unsigned u
            else parse_unsigned s)"

definition sample_num_str :: "number \<Rightarrow> string" where
  "sample_num_str v = (if v = Finite 500 then ''500.0'' else if v = Finite 10 then ''10.0'' else ''nan'')"

text \<open>The day-first reading of the spelling DD-MM-YYYY.\<close>

definition to_datetime_dayfirst :: "cell \<Rightarrow> timestamp option" where
  "to_datetime_dayfirst x =
     (case x of
        Str s \<Rightarrow>
          (case strip s of
             [d1, d2, p, m1, m2, q, y1, y2, y3, y4] \<Rightarrow>
               (let d = digits_value [d1, d2]; m = digits_value [m1, m2];
                    y = int (digits_value [y1, y2, y3, y4])
                in if p = CHR ''-'' \<and> q = CHR ''-'' \<and> list_all is_digit [d1, d2, m1, m2, y1, y2, y3, y4] \<and>
                      1 \<le> m \<and> m \<le> 12 \<and> 1 \<le> d \<and> d \<le> days_in_month y m
                   then Some \<lparr>year = y, month = m, day = d\<rparr> else None)
           | _ \<Rightarrow> None)
      | _ \<Rightarrow> None)"

text \<open>
  A sample export, by the column of amounts: three rows, the second with an unreadable
  date, and all the declared numeric columns.
\<close>

definition numeric_headers :: "string list" where
  "numeric_headers =
     [''Quantity'', ''Unit Price'', ''Line Discount'', ''Line Amount (Qty * Unit Unit_Price) -A'',
      ''Invoice Discount Amount-B'', ''GST Base Amount'',
      ''GST Percentage'', ''Total GST Amount'', ''IGST Amount'', ''IGST Per'',
      ''SGST Amount'', ''SGST Per'', ''CGST Amount'', ''CGST Per'', ''TDS Amount'']"

definition sample_csv :: "cell list \<Rightarrow> frame" where
  "sample_csv amounts =
     [(''Posting Date'', [Str ''05-01-2024'', Str ''not a date'', Str ''20-01-2024'']),
      (''Document No.'', [Str ''INV-1'', Str ''INV-2'', Str ''INV-3'']),
      ('' Sell to State '', [Str ''North'', Str ''South'', NaN]),
      (''Final Line Amount (A-B+C)'', amounts)] @
     map (\<lambda>h. (h, [Str ''1,234.50'', Str ''7'', Str '' N/A ''])) numeric_headers"

text \<open>The sample export with amounts written with thousands separators.\<close>

definition comma_csv :: frame where
  "comma_csv = sample_csv [Str ''1,234.50'', Str ''10'', Str ''980.00'']"

subsection \<open>A small table and a sidebar selection\<close>

definition example_table :: "txn list" where
  "example_table =
     [normalized_row \<lparr>year = 2024, month = 1, day = 5\<rparr> 500 (Some ''INV-1'') (Some ''North'')
        (Some ''Shoes'') (Some ''Retail'') (Some ''Asha'') 2 250,
      normalized_row \<lparr>year = 2024, month = 1, day = 20\<rparr> 1500 (Some ''INV-2'') (Some ''North'')
        (Some ''Bags'') (Some ''Online'') (Some ''Bala'') 3 500,
      normalized_row \<lparr>year = 2024, month = 2, day = 1\<rparr> 800 (Some ''INV-3'') (Some ''South'')
        (Some ''Shoes'') (Some ''Retail'') (Some ''Asha'') 4 200]"

definition example_criteria :: criteria where
  "example_criteria =
     \<lparr>date_range = [\<lparr>year = 2024, month = 1, day = 1\<rparr>, \<lparr>year = 2024, month = 1, day = 31\<rparr>],
      selected_regions = [''North''], selected_product_groups = [''All''],
      selected_sales_channels = [''All''], amount_range = (0, 2000)\<rparr>"

text \<open>A table with one Wednesday row and one Monday row.\<close>

definition midweek_table :: "txn list" where
  "midweek_table =
     [normalized_row \<lparr>year = 2024, month = 1, day = 3\<rparr> 200 (Some ''INV-1'') (Some ''North'')
        (Some ''Shoes'') (Some ''Retail'') (Some ''Asha'') 1 200,
      normalized_row \<lparr>year = 2024, month = 1, day = 1\<rparr> 300 (Some ''INV-2'') (Some ''South'')
        (Some ''Bags'') (Some ''Online'') (Some ''Bala'') 1 300]"

text \<open>A table with rows in January and in March and none in February.\<close>

definition gap_table :: "txn list" where
  "gap_table =
     [normalized_row \<lparr>year = 2024, month = 1, day = 5\<rparr> 500 (Some ''INV-1'') (Some ''North'')
        (Some ''Shoes'') (Some ''Retail'') (Some ''Asha'') 2 250,
      normalized_row \<lparr>year = 2024, month = 3, day = 1\<rparr> 800 (Some ''INV-2'') (Some ''South'')
        (Some ''Shoes'') (Some ''Retail'') (Some ''Bala'') 4 200]"

text \<open>A table with rows of the third and of the first quarter.\<close>

definition quarters_table :: "txn list" where
  "quarters_table =
     [normalized_row \<lparr>year = 2024, month = 8, day = 15\<rparr> 700 (Some ''INV-1'') (Some ''North'')
        (Some ''Shoes'') (Some ''Retail'') (Some ''Asha'') 2 350,
      normalized_row \<lparr>year = 2024, month = 2, day = 9\<rparr> 400 (Some ''INV-2'') (Some ''South'')
        (Some ''Bags'') (Some ''Online'') (Some ''Bala'') 1 400,
      normalized_row \<lparr>year = 2024, month = 9, day = 30\<rparr> 50 (Some ''INV-3'') (Some ''South'')
        (Some ''Bags'') (Some ''Online'') (Some ''Bala'') 1 50]"

text \<open>
  Eleven product groups with the same total; the group of the first row is \<open>K\<close>.
\<close>

definition tie_table :: "txn list" where
  "tie_table =
     map (\<lambda>pg. normalized_row \<lparr>year = 2024, month = 1, day = 5\<rparr> 100 (Some ''INV-1'')
            (Some ''North'') (Some pg) (Some ''Retail'') (Some ''Asha'') 1 100)
       [''K'', ''A'', ''B'', ''C'', ''D'', ''E'', ''F'', ''G'', ''H'', ''I'', ''J'']"

section \<open>Properties\<close>

subsection \<open>Percentage of transactions over 1000\<close>

lemma nunique_card: "nunique (map f df) = card {d. \<exists>r \<in> set df. f r = Some d}"
proof -
  have "set (List.map_filter id (map f df)) = {d. \<exists>r \<in> set df. f r = Some d}"
    by (force simp: List.map_filter_def)
  then show ?thesis
    by (simp add: nunique_def length_remdups_card_conv)
qed

text \<open>
  C10. The percentage of transactions over 1000 never divides by zero: it always returns
  a number and never \<open>ZeroDivisionError\<close>. With no document number in the table (the count
  of distinct document numbers is zero) it is 0; otherwise it is the number of rows whose
  \<open>Sale_Over_1000\<close> flag is set, divided by the number of distinct document numbers,
  times 100.
\<close>

theorem C10_percentage_no_zero_division:
  "percentage_over_1000 df =
     Inr (if card {d. \<exists>r \<in> set df. Document_No r = Some d} = 0 then 0
          else of_nat (length (filter Sale_Over_1000 df)) /
               of_nat (card {d. \<exists>r \<in> set df. Document_No r = Some d}) * 100)"
  by (simp add: percentage_over_1000_def true_div_def total_transactions_def sales_over_1000_def
      nunique_card)

theorem C10_percentage_no_zero_division_witness:
  "percentage_over_1000 example_table = Inr (100 / 3)"
proof -
  have docs: "{d. \<exists>r \<in> set example_table. Document_No r = Some d} = {''INV-1'', ''INV-2'', ''INV-3''}"
    by (auto simp: example_table_def normalized_row_def)
  have rows: "length (filter Sale_Over_1000 example_table) = 1"
    by (simp add: example_table_def normalized_row_def)
  have "percentage_over_1000 example_table =
     Inr (if card {d. \<exists>r \<in> set example_table. Document_No r = Some d} = 0 then 0
          else of_nat (length (filter Sale_Over_1000 example_table)) /
               of_nat (card {d. \<exists>r \<in> set example_table. Document_No r = Some d}) * 100)"
    by (rule C10_percentage_no_zero_division)
  also have "\<dots> = Inr (100 / 3)"
    unfolding docs rows by simp
  finally show ?thesis .
qed

subsection \<open>Filtering\<close>

lemma date_filter_keeps: "date_filter c df = filter (\<lambda>r. keeps c ByDate r) df"
proof (cases "\<exists>s e. date_range c = [s, e]")
  case True
  then obtain s e where "date_range c = [s, e]" by blast
  then show ?thesis by (simp add: date_filter_def)
next
  case False
  then have "date_filter c df = df" "\<And>r::'a txn_scheme. keeps c ByDate r"
    by (auto simp: date_filter_def split: list.splits)
  then show ?thesis by simp
qed

lemma apply_filter_keeps: "apply_filter c k df = filter (\<lambda>r. keeps c k r) df"
  by (cases k)
     (simp_all add: date_filter_keeps region_filter_def product_group_filter_def
        sales_channel_filter_def amount_filter_def)

lemma fold_apply_filter:
  "fold (apply_filter c) ks df = filter (\<lambda>r. \<forall>k \<in> set ks. keeps c k r) df"
proof (induction ks arbitrary: df)
  case Nil
  show ?case by simp
next
  case (Cons k ks)
  have "fold (apply_filter c) (k # ks) df = fold (apply_filter c) ks (filter (\<lambda>r. keeps c k r) df)"
    by (simp add: apply_filter_keeps)
  also have "\<dots> = filter (\<lambda>r. \<forall>k \<in> set ks. keeps c k r) (filter (\<lambda>r. keeps c k r) df)"
    by (rule Cons.IH)
  also have "\<dots> = filter (\<lambda>r. \<forall>k' \<in> set (k # ks). keeps c k' r) df"
    by (simp add: conj_commute)
  finally show ?case .
qed

lemma filter_kind_UNIV:
  "set [ByDate, ByRegion, ByProductGroup, BySalesChannel, ByAmount] = UNIV"
proof -
  have "k \<in> set [ByDate, ByRegion, ByProductGroup, BySalesChannel, ByAmount]" for k
    by (cases k) simp_all
  then show ?thesis by blast
qed

lemma filtered_df_keeps: "filtered_df c df = filter (\<lambda>r. \<forall>k. keeps c k r) df"
proof -
  let ?all = "[ByDate, ByRegion, ByProductGroup, BySalesChannel, ByAmount]"
  have chain: "amount_filter c (sales_channel_filter c (product_group_filter c
                 (region_filter c (date_filter c df)))) = fold (apply_filter c) ?all df"
    by simp
  have empty: "amount_filter c [] = []" "sales_channel_filter c [] = []"
    "product_group_filter c [] = []" "region_filter c [] = []" "date_filter c [] = []"
    using apply_filter_keeps [of c _ "[]"]
    by (metis apply_filter.simps filter.simps(1))+
  have "filtered_df c df = amount_filter c (sales_channel_filter c (product_group_filter c
                 (region_filter c (date_filter c df))))"
    by (simp add: filtered_df_def Let_def empty)
  also have "\<dots> = filter (\<lambda>r. \<forall>k \<in> set ?all. keeps c k r) df"
    unfolding chain by (rule fold_apply_filter)
  also have "\<dots> = filter (\<lambda>r. \<forall>k. keeps c k r) df"
    unfolding filter_kind_UNIV by simp
  finally show ?thesis .
qed

text \<open>
  C3. The five sidebar filters applied one after the other in any permutation give the
  rows the script's own pipeline gives (same rows, same order): filtering is an
  order-insensitive conjunction of the criteria.
\<close>

theorem C3_filters_commute:
  assumes "mset ks = mset [ByDate, ByRegion, ByProductGroup, BySalesChannel, ByAmount]"
  shows "fold (apply_filter c) ks df = filtered_df c df"
proof -
  have "set ks = set [ByDate, ByRegion, ByProductGroup, BySalesChannel, ByAmount]"
    using assms by (rule mset_eq_setD)
  then have "set ks = UNIV" unfolding filter_kind_UNIV .
  then show ?thesis by (simp add: fold_apply_filter filtered_df_keeps)
qed

theorem C3_filters_commute_witness:
  "fold (apply_filter example_criteria)
     [ByAmount, BySalesChannel, ByDate, ByProductGroup, ByRegion] example_table =
   filtered_df example_criteria example_table"
  using C3_filters_commute [of "[ByAmount, BySalesChannel, ByDate, ByProductGroup, ByRegion]" example_criteria example_table]
  by simp

lemma ts_le_trans: "ts_le a b \<Longrightarrow> ts_le b c \<Longrightarrow> ts_le a c"
  unfolding ts_le_def by auto

lemma stricter_keeps:
  assumes "stricter c' c" and "keeps c' k r"
  shows "keeps c k r"
proof (cases k)
  case ByDate
  with assms show ?thesis
    by (auto simp: stricter_def split: list.splits intro: ts_le_trans)
next
  case ByRegion
  with assms show ?thesis by (auto simp: stricter_def isin_def split: option.splits)
next
  case ByProductGroup
  with assms show ?thesis by (auto simp: stricter_def isin_def split: option.splits)
next
  case BySalesChannel
  with assms show ?thesis by (auto simp: stricter_def isin_def split: option.splits)
next
  case ByAmount
  with assms show ?thesis by (auto simp: stricter_def)
qed

lemma length_filter_mono:
  "(\<And>x. x \<in> set xs \<Longrightarrow> P x \<Longrightarrow> Q x) \<Longrightarrow> length (filter P xs) \<le> length (filter Q xs)"
  by (induction xs) auto

text \<open>
  C4. The filtered rows are rows of the table, and criteria that are stricter (a further
  criterion, a smaller include-set, a narrower date or amount range) keep a subset of
  the rows the laxer criteria keep and never more rows.
\<close>

theorem C4_filters_narrow:
  assumes "stricter c' c"
  shows "set (filtered_df c df) \<subseteq> set df \<and>
         set (filtered_df c' df) \<subseteq> set (filtered_df c df) \<and>
         length (filtered_df c df) \<le> length df \<and>
         length (filtered_df c' df) \<le> length (filtered_df c df)"
proof -
  have imp: "(\<forall>k. keeps c' k r) \<Longrightarrow> (\<forall>k. keeps c k r)" for r :: "'a txn_scheme"
    using assms stricter_keeps by blast
  show ?thesis
    unfolding filtered_df_keeps using imp
    by (auto intro: length_filter_mono)
qed

theorem C4_filters_narrow_witness:
  "set (filtered_df example_criteria example_table) \<subseteq> set example_table \<and>
   set (filtered_df (example_criteria\<lparr>amount_range := (1000, 2000)\<rparr>) example_table)
     \<subseteq> set (filtered_df example_criteria example_table) \<and>
   length (filtered_df example_criteria example_table) \<le> length example_table \<and>
   length (filtered_df (example_criteria\<lparr>amount_range := (1000, 2000)\<rparr>) example_table)
     \<le> length (filtered_df example_criteria example_table)"
proof -
  have "stricter (example_criteria\<lparr>amount_range := (1000, 2000)\<rparr>) example_criteria"
    by (simp add: stricter_def example_criteria_def ts_le_def)
  then show ?thesis by (rule C4_filters_narrow)
qed

subsection \<open>Grouped sums\<close>

lemma set_group_keys: "set (group_keys key df) = {k. \<exists>r \<in> set df. key r = Some k}"
  by (force simp: group_keys_def List.map_filter_def)

lemma group_keys_strict: "sorted (group_keys key df) \<and> distinct (group_keys key df)"
  by (simp add: group_keys_def)

lemma map_of_tabulate:
  "map_of (map (\<lambda>k. (k, f k)) ks) x = (if x \<in> set ks then Some (f x) else None)"
  by (induction ks) auto

lemma map_of_groupby_sum:
  "map_of (groupby_sum key metric df) k =
     (if \<exists>r \<in> set df. key r = Some k
      then Some (sum_list (map metric (filter (\<lambda>r. key r = Some k) df))) else None)"
  by (simp add: groupby_sum_def map_of_tabulate set_group_keys)

subsection \<open>Day-of-week chart\<close>

text \<open>
  C1 (as the code has it). The day-of-week aggregation returns exactly the seven labels
  Monday to Sunday, in that order, whatever the table holds: a day with rows carries the
  sum of its rows, a day without rows is kept with a missing value (NaN) in place of a
  sum. Days are not omitted.
\<close>

theorem C1_daily_sales_reindexed:
  "daily_sales df =
     map (\<lambda>d. (d, if d \<in> Day_of_Week ` set df
                  then Some (sum_list (map Final_Line_Amount (filter (\<lambda>r. Day_of_Week r = d) df)))
                  else None))
       day_of_week_order"
  by (auto simp: daily_sales_def reindex_def map_of_groupby_sum)

text \<open>
  C1 as stated fails: a table with one Wednesday row and one Monday row gives seven
  entries, not the two entries Monday and Wednesday.
\<close>

theorem C1_counterexample:
  "map Day_of_Week midweek_table = [''Wednesday'', ''Monday''] \<and>
   daily_sales midweek_table =
     [(''Monday'', Some 300), (''Tuesday'', None), (''Wednesday'', Some 200), (''Thursday'', None),
      (''Friday'', None), (''Saturday'', None), (''Sunday'', None)] \<and>
   map fst (daily_sales midweek_table) \<noteq> [''Monday'', ''Wednesday'']"
  by (simp add: daily_sales_def reindex_def groupby_sum_def group_keys_def midweek_table_def
      normalized_row_def day_name_def days_from_civil_def day_names_def day_of_week_order_def)

subsection \<open>Monthly trend\<close>

lemma month_index_month_end: "month_index (month_end k) = k"
  by (simp add: month_index_def month_end_def)

lemma month_end_chronological:
  assumes "a < b"
  shows "ts_le (month_end a) (month_end b) \<and> month_end a \<noteq> month_end b"
proof (cases "a div 12 = b div 12")
  case True
  have "a = a div 12 * 12 + a mod 12" "b = b div 12 * 12 + b mod 12" by simp_all
  with True assms have "a mod 12 < b mod 12" by linarith
  moreover have "0 \<le> a mod 12" by simp
  ultimately have "nat (a mod 12) < nat (b mod 12)" by linarith
  then have "nat (a mod 12) \<noteq> nat (b mod 12)" by linarith
  with True \<open>nat (a mod 12) < nat (b mod 12)\<close> show ?thesis
    by (simp add: ts_le_def month_end_def del: zless_nat_conj)
next
  case False
  moreover have "a div 12 \<le> b div 12" using assms by (simp add: zdiv_mono1)
  ultimately have "a div 12 < b div 12" by linarith
  then show ?thesis by (auto simp: ts_le_def month_end_def)
qed

text \<open>
  C2 (as the code has it). On a table with rows, the monthly trend has exactly one entry
  for every calendar month from the month of the earliest row to the month of the latest
  row, in chronological order and labelled with the month's last day; each entry carries
  the sum of the metric over the rows of its month, which is 0 for a month in between
  that has no rows. Months without rows inside the range are filled in, not left out.
\<close>

theorem C2_monthly_range_filled:
  assumes "df \<noteq> []"
  shows "map (\<lambda>e. month_index (fst e)) (monthly_sales df) =
           [Min (set (map (\<lambda>r. month_index (Posting_Date r)) df)) ..
            Max (set (map (\<lambda>r. month_index (Posting_Date r)) df))] \<and>
         (\<forall>e \<in> set (monthly_sales df).
            fst e = month_end (month_index (fst e)) \<and>
            snd e = sum_list (map Final_Line_Amount
                      (filter (\<lambda>r. month_index (Posting_Date r) = month_index (fst e)) df))) \<and>
         sorted_wrt (\<lambda>a b. ts_le a b \<and> a \<noteq> b) (map fst (monthly_sales df))"
proof -
  let ?lo = "Min (set (map (\<lambda>r. month_index (Posting_Date r)) df))"
  let ?hi = "Max (set (map (\<lambda>r. month_index (Posting_Date r)) df))"
  let ?S = "\<lambda>k. sum_list (map Final_Line_Amount (filter (\<lambda>r. month_index (Posting_Date r) = k) df))"
  have eq: "monthly_sales df = map (\<lambda>k. (month_end k, ?S k)) [?lo .. ?hi]"
    using assms by (simp add: monthly_sales_def resample_M_sum_def Let_def)
  have months: "map (\<lambda>e. month_index (fst e)) (monthly_sales df) = [?lo .. ?hi]"
    unfolding eq by (simp add: o_def month_index_month_end)
  have entries: "\<forall>e \<in> set (monthly_sales df).
            fst e = month_end (month_index (fst e)) \<and> snd e = ?S (month_index (fst e))"
    unfolding eq by (auto simp: month_index_month_end)
  have "sorted_wrt (<) [?lo .. ?hi]"
    by (simp add: strict_sorted_iff)
  then have "sorted_wrt (\<lambda>a b. ts_le (month_end a) (month_end b) \<and> month_end a \<noteq> month_end b) [?lo .. ?hi]"
    by (rule sorted_wrt_mono_rel [rotated]) (use month_end_chronological in blast)
  then have chron: "sorted_wrt (\<lambda>a b. ts_le a b \<and> a \<noteq> b) (map fst (monthly_sales df))"
    unfolding eq by (simp add: o_def sorted_wrt_map)
  from months entries chron show ?thesis by blast
qed

text \<open>
  C2 as stated fails: with rows in January and March 2024 only, the trend has an entry
  for February 2024, a month with no rows.
\<close>

theorem C2_counterexample:
  "map (\<lambda>r. (year (Posting_Date r), month (Posting_Date r))) gap_table = [(2024, 1), (2024, 3)] \<and>
   monthly_sales gap_table =
     [(\<lparr>year = 2024, month = 1, day = 31\<rparr>, 500),
      (\<lparr>year = 2024, month = 2, day = 29\<rparr>, 0),
      (\<lparr>year = 2024, month = 3, day = 31\<rparr>, 800)]"
  by (simp add: monthly_sales_def resample_M_sum_def gap_table_def normalized_row_def
      month_index_def month_end_def days_in_month_def is_leap_def upto.simps)

theorem C2_monthly_range_filled_witness:
  "map (\<lambda>e. month_index (fst e)) (monthly_sales gap_table) = [24288, 24289, 24290]"
proof -
  have "gap_table \<noteq> []" by (simp add: gap_table_def)
  from C2_monthly_range_filled [OF this] show ?thesis
    by (simp add: gap_table_def normalized_row_def month_index_def upto.simps)
qed

subsection \<open>Quarterly chart\<close>

lemma quarter_label_in_order:
  assumes "1 \<le> month t" "month t \<le> 12"
  shows "quarter_label t \<in> set quarter_order"
proof -
  have "quarter t \<in> {1, 2, 3, 4}"
    using assms by (auto simp: quarter_def)
  then show ?thesis
    by (auto simp: quarter_label_def quarter_order_def str_nat.simps digit_char_def)
qed

lemma quarter_order_sorted: "sorted quarter_order \<and> distinct quarter_order"
  by (simp add: quarter_order_def)

lemma quarter_code_mono:
  "a \<in> set quarter_order \<Longrightarrow> b \<in> set quarter_order \<Longrightarrow> a \<le> b \<Longrightarrow>
   index_of quarter_order a \<le> index_of quarter_order b"
  by (auto simp: quarter_order_def)

text \<open>
  C8. On a table whose \<open>Quarter\<close> labels are the loader's (Q1 to Q4), the quarterly
  aggregation lists the quarters that have rows in the order Q1, Q2, Q3, Q4, each with
  the sum of its rows, and leaves out the quarters that have none.
\<close>

theorem C8_quarterly_order:
  assumes "\<forall>r \<in> set df. Quarter r \<in> set quarter_order"
  shows "quarterly_sales df =
           map (\<lambda>q. (Some q, sum_list (map Final_Line_Amount (filter (\<lambda>r. Quarter r = q) df))))
             (filter (\<lambda>q. q \<in> Quarter ` set df) quarter_order)"
proof -
  let ?ks = "group_keys (\<lambda>r. Some (Quarter r)) df"
  let ?S = "\<lambda>q. sum_list (map Final_Line_Amount (filter (\<lambda>r. Quarter r = q) df))"
  have set_ks: "set ?ks = Quarter ` set df"
    by (auto simp: set_group_keys)
  then have sub: "set ?ks \<subseteq> set quarter_order"
    using assms by auto
  have ks: "?ks = filter (\<lambda>q. q \<in> Quarter ` set df) quarter_order"
  proof (rule sorted_distinct_set_unique)
    show "sorted ?ks" "distinct ?ks" using group_keys_strict by blast+
    show "sorted (filter (\<lambda>q. q \<in> Quarter ` set df) quarter_order)"
      using quarter_order_sorted by (simp add: sorted_wrt_filter)
    show "distinct (filter (\<lambda>q. q \<in> Quarter ` set df) quarter_order)"
      using quarter_order_sorted by simp
    show "set ?ks = set (filter (\<lambda>q. q \<in> Quarter ` set df) quarter_order)"
      using set_ks sub by auto
  qed
  have cat: "map (\<lambda>kv. (categorical quarter_order (fst kv), snd kv))
               (groupby_sum (\<lambda>r. Some (Quarter r)) Final_Line_Amount df) =
             map (\<lambda>q. (Some q, ?S q)) ?ks"
    using sub by (auto simp: groupby_sum_def categorical_def)
  have "sorted ?ks" using group_keys_strict by blast
  then have "sorted (map (index_of quarter_order) ?ks)"
    unfolding sorted_wrt_map
    by (rule sorted_wrt_mono_rel [rotated]) (use sub quarter_code_mono in blast)
  then have "sorted (map (\<lambda>kv. cat_code quarter_order (fst kv)) (map (\<lambda>q. (Some q, ?S q)) ?ks))"
    by (simp add: o_def cat_code_def)
  then have "quarterly_sales df = map (\<lambda>q. (Some q, ?S q)) ?ks"
    unfolding quarterly_sales_def cat by (rule sort_key_id_if_sorted)
  then show ?thesis using ks by simp
qed

theorem C8_quarterly_order_witness:
  "map Quarter quarters_table = [''Q3'', ''Q1'', ''Q3''] \<and>
   quarterly_sales quarters_table = [(Some ''Q1'', 400), (Some ''Q3'', 750)]"
proof -
  have q: "map Quarter quarters_table = [''Q3'', ''Q1'', ''Q3'']"
    by (simp add: quarters_table_def normalized_row_def quarter_label_def quarter_def
        str_nat.simps digit_char_def)
  then have "\<forall>r \<in> set quarters_table. Quarter r \<in> set quarter_order"
    by (simp add: quarters_table_def quarter_order_def)
  from C8_quarterly_order [OF this] q show ?thesis
    by (simp add: quarters_table_def normalized_row_def quarter_label_def quarter_def
        str_nat.simps digit_char_def quarter_order_def)
qed

subsection \<open>Top N\<close>

lemma insort_key_lex:
  fixes f :: "'a \<Rightarrow> 'b::linorder" and g :: "'a \<Rightarrow> 'c::linorder"
  assumes "sorted_wrt (\<lambda>a b. f a < f b \<or> (f a = f b \<and> g a < g b)) s"
    and "\<forall>y \<in> set s. g x < g y"
  shows "sorted_wrt (\<lambda>a b. f a < f b \<or> (f a = f b \<and> g a < g b)) (insort_key f x s)"
  using assms
proof (induction s)
  case Nil
  then show ?case by simp
next
  case (Cons y ys)
  show ?case
  proof (cases "f x \<le> f y")
    case True
    have "f x < f z \<or> (f x = f z \<and> g x < g z)" if "z \<in> set (y # ys)" for z
    proof -
      have "f y \<le> f z" using Cons.prems(1) that by auto
      with True have "f x \<le> f z" by simp
      moreover have "g x < g z" using Cons.prems(2) that by auto
      ultimately show ?thesis by auto
    qed
    with True Cons.prems(1) show ?thesis by simp
  next
    case False
    have "sorted_wrt (\<lambda>a b. f a < f b \<or> (f a = f b \<and> g a < g b)) (insort_key f x ys)"
      using Cons by simp
    moreover have "f y < f z \<or> (f y = f z \<and> g y < g z)" if "z \<in> set (insort_key f x ys)" for z
      using that False Cons.prems(1) by (auto simp: set_insort_key)
    ultimately show ?thesis using False by simp
  qed
qed

lemma sort_key_lex:
  fixes f :: "'a \<Rightarrow> 'b::linorder" and g :: "'a \<Rightarrow> 'c::linorder"
  assumes "sorted_wrt (\<lambda>a b. g a < g b) xs"
  shows "sorted_wrt (\<lambda>a b. f a < f b \<or> (f a = f b \<and> g a < g b)) (sort_key f xs)"
  using assms
proof (induction xs)
  case Nil
  then show ?case by simp
next
  case (Cons x xs)
  then have "sorted_wrt (\<lambda>a b. f a < f b \<or> (f a = f b \<and> g a < g b)) (sort_key f xs)"
    and "\<forall>y \<in> set (sort_key f xs). g x < g y"
    by simp_all
  then show ?case by (simp add: insort_key_lex)
qed

lemma groupby_sum_keys: "map fst (groupby_sum key metric df) = group_keys key df"
  by (simp add: groupby_sum_def o_def)

lemma nlargest_lex:
  fixes ser :: "('k::linorder \<times> rat) list"
  assumes "sorted_wrt (<) (map fst ser)"
  shows "sorted_wrt (\<lambda>a b. snd b < snd a \<or> (snd a = snd b \<and> fst a < fst b))
           (sort_key (\<lambda>kv. - snd kv) ser)"
proof -
  have "sorted_wrt (\<lambda>a b. fst a < fst b) ser"
    using assms by (simp add: sorted_wrt_map)
  then have "sorted_wrt (\<lambda>a b. - snd a < - snd b \<or> (- snd a = - snd b \<and> fst a < fst b))
           (sort_key (\<lambda>kv. - snd kv) ser)"
    by (rule sort_key_lex [where g = fst and f = "\<lambda>kv. - snd kv"])
  then show ?thesis by simp
qed

text \<open>
  C7 (as the code has it). The N largest of a grouped sum are at most N groups of the
  grouped series; no omitted group has a larger sum than a returned one; the returned
  groups are in descending order of sum; and among groups of equal sum the one whose key
  sorts first is preferred and comes first: the grouped series is in ascending key
  order, and that order, not the order of the table's rows, decides ties.
\<close>

theorem C7_top_n_key_order:
  "length (nlargest n (groupby_sum key metric df)) \<le> n \<and>
   set (nlargest n (groupby_sum key metric df)) \<subseteq> set (groupby_sum key metric df) \<and>
   (\<forall>x \<in> set (nlargest n (groupby_sum key metric df)).
      \<forall>y \<in> set (groupby_sum key metric df) - set (nlargest n (groupby_sum key metric df)).
        snd y \<le> snd x \<and> (snd y = snd x \<longrightarrow> fst x < fst y)) \<and>
   sorted_wrt (\<lambda>a b. snd b < snd a \<or> (snd a = snd b \<and> fst a < fst b))
     (nlargest n (groupby_sum key metric df))"
proof -
  let ?G = "groupby_sum key metric df"
  let ?R = "\<lambda>a b :: string \<times> rat. snd b < snd a \<or> (snd a = snd b \<and> fst a < fst b)"
  let ?s = "sort_key (\<lambda>kv. - snd kv) ?G"
  have "sorted_wrt (<) (map fst ?G)"
    using group_keys_strict [of key df] by (simp add: groupby_sum_keys strict_sorted_iff)
  then have s: "sorted_wrt ?R ?s" by (rule nlargest_lex)
  have split: "?s = take n ?s @ drop n ?s" by simp
  have "sorted_wrt ?R (take n ?s @ drop n ?s)" using s by simp
  then have cross: "\<forall>x \<in> set (take n ?s). \<forall>y \<in> set (drop n ?s). ?R x y"
    and top: "sorted_wrt ?R (take n ?s)"
    unfolding sorted_wrt_append by blast+
  have "set ?G = set (take n ?s) \<union> set (drop n ?s)"
    by (metis set_append set_sort split)
  then have rest: "set ?G - set (take n ?s) \<subseteq> set (drop n ?s)" by blast
  have "set (take n ?s) \<subseteq> set ?G"
    by (metis set_sort set_take_subset)
  moreover have "\<forall>x \<in> set (take n ?s). \<forall>y \<in> set ?G - set (take n ?s).
      snd y \<le> snd x \<and> (snd y = snd x \<longrightarrow> fst x < fst y)"
    using cross rest by fastforce
  ultimately show ?thesis
    using top by (simp add: nlargest_def)
qed

text \<open>
  C7 as stated fails in its tie rule: eleven product groups have the same total and the
  first row of the table belongs to group K, yet the top 10 are A to J and K, the
  first-encountered group, is the one left out.
\<close>

theorem C7_counterexample:
  "map Product_Group (take 1 tie_table) = [Some ''K''] \<and>
   product_sales tie_table =
     [(''A'', 100), (''B'', 100), (''C'', 100), (''D'', 100), (''E'', 100), (''F'', 100),
      (''G'', 100), (''H'', 100), (''I'', 100), (''J'', 100)]"
  by (simp add: product_sales_def nlargest_def groupby_sum_def group_keys_def tie_table_def
      normalized_row_def)

theorem C7_top_n_key_order_witness:
  "(''J'', 100) \<in> set (nlargest 10 (groupby_sum Product_Group Final_Line_Amount tie_table)) \<and>
   (''K'', 100) \<in> set (groupby_sum Product_Group Final_Line_Amount tie_table) -
      set (nlargest 10 (groupby_sum Product_Group Final_Line_Amount tie_table)) \<and>
   snd (''K'', 100 :: rat) \<le> snd (''J'', 100 :: rat) \<and> ''J'' < ''K''"
proof -
  let ?G = "groupby_sum Product_Group Final_Line_Amount tie_table"
  have top: "nlargest 10 ?G =
     [(''A'', 100), (''B'', 100), (''C'', 100), (''D'', 100), (''E'', 100), (''F'', 100),
      (''G'', 100), (''H'', 100), (''I'', 100), (''J'', 100)]"
    by (simp add: nlargest_def groupby_sum_def group_keys_def tie_table_def normalized_row_def)
  have all: "(''K'', 100) \<in> set ?G"
    by (simp add: groupby_sum_def group_keys_def tie_table_def normalized_row_def)
  have mem: "(''J'', 100) \<in> set (nlargest 10 ?G)" "(''K'', 100) \<in> set ?G - set (nlargest 10 ?G)"
    using all unfolding top by simp_all
  with C7_top_n_key_order [of 10 Product_Group Final_Line_Amount tie_table]
  have "snd (''K'', 100 :: rat) \<le> snd (''J'', 100 :: rat) \<and>
        (snd (''K'', 100 :: rat) = snd (''J'', 100 :: rat) \<longrightarrow> fst (''J'', 100 :: rat) < fst (''K'', 100 :: rat))"
    by blast
  with mem show ?thesis by simp
qed

subsection \<open>Empty tables\<close>




subsection \<open>Loader\<close>

lemma map_of_map_columns:
  "map_of (map (\<lambda>(n, col). (n, f col)) df) c = map_option f (map_of df c)"
  by (induction df) auto

lemma select_self: "select (map P xs) xs = filter P xs"
  unfolding select_def by (induction xs) auto

lemma map_of_dropna:
  "map_of (dropna key_col df) c = map_option (select (map (\<lambda>x. x \<noteq> NaN) key_col)) (map_of df c)"
  unfolding dropna_def by (rule map_of_map_columns)

lemma map_of_coerce_column:
  "map_of (coerce_column num_str to_numeric c df) k =
     (if k = c then map_option (map (coerce_cell num_str to_numeric)) (map_of df k) else map_of df k)"
  by (auto simp: coerce_column_def update_conv' split: option.splits)

lemma map_of_fillna_column:
  "map_of (fillna_column c df) k =
     (if k = c then map_option (map fillna_cell) (map_of df k) else map_of df k)"
  by (auto simp: fillna_column_def update_conv' split: option.splits)

lemma map_of_fold_coerce:
  "distinct cols \<Longrightarrow>
   map_of (fold (coerce_column num_str to_numeric) cols df) k =
     (if k \<in> set cols then map_option (map (coerce_cell num_str to_numeric)) (map_of df k) else map_of df k)"
  by (induction cols arbitrary: df) (auto simp: map_of_coerce_column)

lemma map_of_fold_fillna:
  "distinct cols \<Longrightarrow>
   map_of (fold fillna_column cols df) k =
     (if k \<in> set cols then map_option (map fillna_cell) (map_of df k) else map_of df k)"
  by (induction cols arbitrary: df) (auto simp: map_of_fillna_column)

lemma distinct_numeric_cols: "distinct numeric_cols"
  by (simp add: numeric_cols_def)

lemma is_Num_fillna_coerce: "is_Num (fillna_cell (coerce_cell num_str to_numeric x))"
  by (cases x) (auto simp: fillna_cell_def coerce_cell_def is_Num_def split: option.splits)

lemma coerce_numeric_Inr:
  assumes "coerce_numeric num_str to_numeric df = Inr df'" and "c \<in> set numeric_cols"
  shows "\<exists>xs. map_of df c = Some xs \<and>
              map_of df' c = Some (map (\<lambda>x. fillna_cell (coerce_cell num_str to_numeric x)) xs)"
proof -
  let ?df1 = "fold (coerce_column num_str to_numeric) numeric_cols df"
  from assms(1) have none: "find (\<lambda>c. c \<notin> set (map fst ?df1)) numeric_cols = None"
    and df': "df' = fold fillna_column numeric_cols ?df1"
    by (auto simp: coerce_numeric_def Let_def split: option.splits)
  from none assms(2) have "c \<in> set (map fst ?df1)"
    by (auto simp: find_None_iff)
  then obtain ys where ys: "map_of ?df1 c = Some ys"
    by (metis map_of_eq_None_iff not_Some_eq set_map)
  then obtain xs where xs: "map_of df c = Some xs" "ys = map (coerce_cell num_str to_numeric) xs"
    using assms(2) by (auto simp: map_of_fold_coerce distinct_numeric_cols)
  have "map_of df' c = Some (map fillna_cell ys)"
    unfolding df' using ys assms(2) by (simp add: map_of_fold_fillna distinct_numeric_cols)
  with xs show ?thesis by (simp add: o_def)
qed

lemma coerce_numeric_other:
  assumes "coerce_numeric num_str to_numeric df = Inr df'" and "c \<notin> set numeric_cols"
  shows "map_of df' c = map_of df c"
proof -
  from assms(1) have "df' = fold fillna_column numeric_cols (fold (coerce_column num_str to_numeric) numeric_cols df)"
    by (auto simp: coerce_numeric_def Let_def split: option.splits)
  with assms(2) show ?thesis
    by (simp add: map_of_fold_fillna map_of_fold_coerce distinct_numeric_cols)
qed

lemma derive_columns_other:
  assumes "derive_columns df = Inr df'"
    and "c \<notin> {''Sale_Over_1000'', ''Year'', ''Month'', ''Day_of_Week'', ''Quarter''}"
  shows "map_of df' c = map_of df c"
  using assms
  by (auto simp: derive_columns_def update_conv' split: option.splits if_splits)

lemma parse_dates_Inr:
  assumes "parse_dates to_datetime df = Inr df'"
  shows "\<exists>raw_dates. map_of df ''Posting_Date'' = Some raw_dates \<and>
           map_of df' ''Posting_Date'' = Some (map Stamp (List.map_filter to_datetime raw_dates)) \<and>
           (\<forall>c. c \<noteq> ''Posting_Date'' \<longrightarrow>
              map_of df' c =
                map_option (select (map (\<lambda>x. to_datetime x \<noteq> None) raw_dates)) (map_of df c))"
proof -
  from assms obtain raw_dates where raw: "map_of df ''Posting_Date'' = Some raw_dates"
    by (auto simp: parse_dates_def split: option.splits)
  let ?parsed = "map (\<lambda>x. case to_datetime x of Some t \<Rightarrow> Stamp t | None \<Rightarrow> NaN) raw_dates"
  from assms raw have df': "df' = dropna ?parsed (AList.update ''Posting_Date'' ?parsed df)"
    by (simp add: parse_dates_def Let_def)
  have keep: "map (\<lambda>x. x \<noteq> NaN) ?parsed = map (\<lambda>x. to_datetime x \<noteq> None) raw_dates"
    by (auto split: option.splits)
  have "select (map (\<lambda>x. x \<noteq> NaN) ?parsed) ?parsed = map Stamp (List.map_filter to_datetime raw_dates)"
    unfolding select_self by (induction raw_dates) (auto split: option.splits)
  then have "map_of df' ''Posting_Date'' = Some (map Stamp (List.map_filter to_datetime raw_dates))"
    unfolding df' by (simp add: map_of_dropna update_conv')
  moreover have "map_of df' c =
      map_option (select (map (\<lambda>x. to_datetime x \<noteq> None) raw_dates)) (map_of df c)"
    if "c \<noteq> ''Posting_Date''" for c
    unfolding df' map_of_dropna keep using that by (simp add: update_conv')
  ultimately show ?thesis using raw by blast
qed

lemma in_columns_iff: "c \<in> set (map fst df) \<longleftrightarrow> map_of df c \<noteq> None"
  by (simp add: map_of_eq_None_iff)

lemma numeric_not_derived:
  "c \<in> set numeric_cols \<Longrightarrow>
   c \<notin> {''Sale_Over_1000'', ''Year'', ''Month'', ''Day_of_Week'', ''Quarter''} \<and> c \<noteq> ''Posting_Date''"
  by (auto simp: numeric_cols_def)

lemma derive_columns_Inr:
  assumes "map_of df ''Final_Line_Amount'' = Some amounts" and "\<not> list_ex is_Str amounts"
    and "map_of df ''Posting_Date'' = Some dates"
  shows "\<exists>df'. derive_columns df = Inr df'"
  using assms by (simp add: derive_columns_def)

lemma derive_columns_TypeError:
  assumes "map_of df ''Final_Line_Amount'' = Some amounts" and "list_ex is_Str amounts"
  shows "derive_columns df = Inl TypeError"
  using assms by (simp add: derive_columns_def)

lemma coerce_numeric_returns:
  assumes "\<forall>c \<in> set numeric_cols. map_of df c \<noteq> None"
  shows "\<exists>df'. coerce_numeric num_str to_numeric df = Inr df'"
proof -
  have "find (\<lambda>c. c \<notin> set (map fst (fold (coerce_column num_str to_numeric) numeric_cols df))) numeric_cols = None"
    unfolding find_None_iff in_columns_iff
    using assms by (auto simp: map_of_fold_coerce distinct_numeric_cols)
  then show ?thesis by (simp add: coerce_numeric_def)
qed

lemma load_data_returns:
  assumes dates: "map_of (standardize_columns raw) ''Posting_Date'' = Some raw_dates"
    and amounts: "map_of (standardize_columns raw) ''Final_Line_Amount'' = Some amounts"
    and numbers: "\<not> list_ex is_Str (select (map (\<lambda>x. to_datetime x \<noteq> None) raw_dates) amounts)"
    and columns: "set numeric_cols \<subseteq> set (map fst (standardize_columns raw))"
  shows "\<exists>df. load_data to_datetime num_str to_numeric (Some raw) = Inr df"
proof -
  let ?keep = "map (\<lambda>x. to_datetime x \<noteq> None) raw_dates"
  obtain df1 where p: "parse_dates to_datetime (standardize_columns raw) = Inr df1"
    using dates by (simp add: parse_dates_def Let_def)
  from parse_dates_Inr [OF p] dates have
    d1: "map_of df1 ''Posting_Date'' = Some (map Stamp (List.map_filter to_datetime raw_dates))" and
    o1: "\<And>c. c \<noteq> ''Posting_Date'' \<Longrightarrow>
           map_of df1 c = map_option (select ?keep) (map_of (standardize_columns raw) c)"
    by auto
  have "map_of df1 ''Final_Line_Amount'' = Some (select ?keep amounts)"
    using o1 [of "''Final_Line_Amount''"] amounts by simp
  from derive_columns_Inr [OF this numbers d1]
  obtain df2 where d: "derive_columns df1 = Inr df2" by blast
  have "map_of df2 c \<noteq> None" if "c \<in> set numeric_cols" for c
  proof -
    from that columns have "map_of (standardize_columns raw) c \<noteq> None"
      unfolding in_columns_iff [symmetric] by blast
    then have "map_of df1 c \<noteq> None"
      using o1 [of c] numeric_not_derived [OF that] by simp
    then show ?thesis
      using derive_columns_other [OF d, of c] numeric_not_derived [OF that] by simp
  qed
  then obtain df where "coerce_numeric num_str to_numeric df2 = Inr df"
    using coerce_numeric_returns by blast
  with p d show ?thesis by (simp add: load_data_def)
qed

lemma load_data_TypeError:
  assumes dates: "map_of (standardize_columns raw) ''Posting_Date'' = Some raw_dates"
    and amounts: "map_of (standardize_columns raw) ''Final_Line_Amount'' = Some amounts"
    and strings: "list_ex is_Str (select (map (\<lambda>x. to_datetime x \<noteq> None) raw_dates) amounts)"
  shows "load_data to_datetime num_str to_numeric (Some raw) = Inl TypeError"
proof -
  let ?keep = "map (\<lambda>x. to_datetime x \<noteq> None) raw_dates"
  obtain df1 where p: "parse_dates to_datetime (standardize_columns raw) = Inr df1"
    using dates by (simp add: parse_dates_def Let_def)
  from parse_dates_Inr [OF p] dates have
    "map_of df1 ''Final_Line_Amount'' =
       map_option (select ?keep) (map_of (standardize_columns raw) ''Final_Line_Amount'')"
    by auto
  then have "map_of df1 ''Final_Line_Amount'' = Some (select ?keep amounts)"
    using amounts by simp
  from derive_columns_TypeError [OF this strings] p show ?thesis
    by (simp add: load_data_def)
qed

text \<open>
  C6. Whenever the loader returns a frame, every cell of its \<open>Posting_Date\<close> column is a
  timestamp and every cell of every declared numeric column is a number, never missing:
  the dates are those of the source rows whose date parses, in order (the other rows are
  dropped), and a numeric cell is the source cell of a kept row, printed, freed of commas,
  stripped and parsed, with 0 where the parser gives NaN. This holds for every date
  parser, number printer and numeric parser.
\<close>

theorem C6_loader_invariant:
  assumes "load_data to_datetime num_str to_numeric csv = Inr df"
  shows "(\<exists>dates. map_of df ''Posting_Date'' = Some dates \<and> list_all is_Stamp dates) \<and>
         (\<forall>c \<in> set numeric_cols. \<exists>xs. map_of df c = Some xs \<and> list_all is_Num xs) \<and>
         (\<exists>raw raw_dates.
            csv = Some raw \<and>
            map_of (standardize_columns raw) ''Posting_Date'' = Some raw_dates \<and>
            map_of df ''Posting_Date'' = Some (map Stamp (List.map_filter to_datetime raw_dates)) \<and>
            (\<forall>c \<in> set numeric_cols.
               \<exists>xs. map_of (standardize_columns raw) c = Some xs \<and>
                    map_of df c =
                      Some (map (\<lambda>x. fillna_cell (coerce_cell num_str to_numeric x))
                              (select (map (\<lambda>x. to_datetime x \<noteq> None) raw_dates) xs))))"
proof -
  from assms obtain raw df1 df2 where
    csv: "csv = Some raw" and
    p: "parse_dates to_datetime (standardize_columns raw) = Inr df1" and
    d: "derive_columns df1 = Inr df2" and
    n: "coerce_numeric num_str to_numeric df2 = Inr df"
    by (auto simp: load_data_def split: option.splits sum.splits)
  let ?std = "standardize_columns raw"
  from parse_dates_Inr [OF p] obtain raw_dates where
    raw: "map_of ?std ''Posting_Date'' = Some raw_dates" and
    d1: "map_of df1 ''Posting_Date'' = Some (map Stamp (List.map_filter to_datetime raw_dates))" and
    o1: "\<And>c. c \<noteq> ''Posting_Date'' \<Longrightarrow>
           map_of df1 c = map_option (select (map (\<lambda>x. to_datetime x \<noteq> None) raw_dates)) (map_of ?std c)"
    by blast
  let ?keep = "map (\<lambda>x. to_datetime x \<noteq> None) raw_dates"
  have not_num: "''Posting_Date'' \<notin> set numeric_cols"
    by (simp add: numeric_cols_def)
  have not_derived:
    "''Posting_Date'' \<notin> {''Sale_Over_1000'', ''Year'', ''Month'', ''Day_of_Week'', ''Quarter''}"
    by simp
  have dates: "map_of df ''Posting_Date'' = Some (map Stamp (List.map_filter to_datetime raw_dates))"
    using d1 coerce_numeric_other [OF n not_num] derive_columns_other [OF d not_derived] by simp
  have stamps: "list_all is_Stamp (map Stamp (List.map_filter to_datetime raw_dates))"
    by (simp add: list_all_iff is_Stamp_def)
  have numeric: "\<exists>xs. map_of ?std c = Some xs \<and>
      map_of df c = Some (map (\<lambda>x. fillna_cell (coerce_cell num_str to_numeric x)) (select ?keep xs))"
    if "c \<in> set numeric_cols" for c
  proof -
    from coerce_numeric_Inr [OF n that] obtain ys where
      ys: "map_of df2 c = Some ys" "map_of df c = Some (map (\<lambda>x. fillna_cell (coerce_cell num_str to_numeric x)) ys)"
      by blast
    have "map_of df2 c = map_option (select ?keep) (map_of ?std c)"
      using derive_columns_other [OF d, of c] o1 [of c] numeric_not_derived [OF that] by simp
    with ys show ?thesis by auto
  qed
  have nums: "\<exists>xs. map_of df c = Some xs \<and> list_all is_Num xs" if "c \<in> set numeric_cols" for c
    using numeric [OF that] by (auto simp: list_all_iff is_Num_fillna_coerce)
  from dates stamps have "\<exists>dates. map_of df ''Posting_Date'' = Some dates \<and> list_all is_Stamp dates"
    by blast
  moreover from nums have "\<forall>c \<in> set numeric_cols. \<exists>xs. map_of df c = Some xs \<and> list_all is_Num xs"
    by blast
  moreover from csv raw dates numeric have "\<exists>raw raw_dates.
            csv = Some raw \<and>
            map_of (standardize_columns raw) ''Posting_Date'' = Some raw_dates \<and>
            map_of df ''Posting_Date'' = Some (map Stamp (List.map_filter to_datetime raw_dates)) \<and>
            (\<forall>c \<in> set numeric_cols.
               \<exists>xs. map_of (standardize_columns raw) c = Some xs \<and>
                    map_of df c =
                      Some (map (\<lambda>x. fillna_cell (coerce_cell num_str to_numeric x))
                              (select (map (\<lambda>x. to_datetime x \<noteq> None) raw_dates) xs)))"
    by blast
  ultimately show ?thesis by blast
qed

lemma sample_columns:
  "map fst (standardize_columns (sample_csv a)) =
     [''Posting_Date'', ''Document No.'', ''Region'', ''Final_Line_Amount'', ''Quantity'',
      ''Unit_Price'', ''Line Discount'', ''Line Amount (Qty * Unit Unit_Price) -A'',
      ''Invoice Discount Amount-B'', ''GST Base Amount'', ''GST Percentage'',
      ''Total GST Amount'', ''IGST Amount'', ''IGST Per'', ''SGST Amount'', ''SGST Per'',
      ''CGST Amount'', ''CGST Per'', ''TDS Amount'']"
  by (simp add: standardize_columns_def sample_csv_def numeric_headers_def rename_column_def
      column_renames_def strip_def is_space_def)

lemma sample_lookup:
  "map_of (standardize_columns (sample_csv a)) ''Posting_Date'' =
     Some [Str ''05-01-2024'', Str ''not a date'', Str ''20-01-2024'']"
  "map_of (standardize_columns (sample_csv a)) ''Final_Line_Amount'' = Some a"
  "map_of (standardize_columns (sample_csv a)) ''Quantity'' =
     Some [Str ''1,234.50'', Str ''7'', Str '' N/A '']"
  by (simp_all add: standardize_columns_def sample_csv_def numeric_headers_def rename_column_def
      column_renames_def strip_def is_space_def)

lemma sample_dates:
  "to_datetime_dayfirst (Str ''05-01-2024'') = Some \<lparr>year = 2024, month = 1, day = 5\<rparr>"
  "to_datetime_dayfirst (Str ''not a date'') = None"
  "to_datetime_dayfirst (Str ''20-01-2024'') = Some \<lparr>year = 2024, month = 1, day = 20\<rparr>"
  by (simp_all add: to_datetime_dayfirst_def strip_def is_space_def is_digit_def digits_value_def
      days_in_month_def is_leap_def)

lemma sample_cells:
  "fillna_cell (coerce_cell sample_num_str to_numeric_decimal (Str ''1,234.50'')) = Num (Finite (2469 / 2))"
  "fillna_cell (coerce_cell sample_num_str to_numeric_decimal (Str '' N/A '')) = Num (Finite 0)"
  "fillna_cell (coerce_cell sample_num_str to_numeric_decimal (Num (Finite 500))) = Num (Finite 500)"
  "fillna_cell (coerce_cell sample_num_str to_numeric_decimal NaN) = Num (Finite 0)"
  by (simp_all add: coerce_cell_def astype_str_def sample_num_str_def fillna_cell_def
      to_numeric_decimal_def parse_unsigned_def strip_def is_space_def is_digit_def
      digits_value_def)

theorem C6_loader_invariant_witness:
  "\<exists>df. load_data to_datetime_dayfirst sample_num_str to_numeric_decimal
          (Some (sample_csv [Num (Finite 500), Num (Finite 10), NaN])) = Inr df \<and>
        map_of df ''Posting_Date'' =
          Some [Stamp \<lparr>year = 2024, month = 1, day = 5\<rparr>, Stamp \<lparr>year = 2024, month = 1, day = 20\<rparr>] \<and>
        map_of df ''Final_Line_Amount'' = Some [Num (Finite 500), Num (Finite 0)] \<and>
        map_of df ''Quantity'' = Some [Num (Finite (2469 / 2)), Num (Finite 0)]"
proof -
  let ?raw = "sample_csv [Num (Finite 500), Num (Finite 10), NaN]"
  have "set numeric_cols \<subseteq> set (map fst (standardize_columns ?raw))"
    unfolding sample_columns by (simp add: numeric_cols_def)
  moreover have "\<not> list_ex is_Str
      (select (map (\<lambda>x. to_datetime_dayfirst x \<noteq> None)
         [Str ''05-01-2024'', Str ''not a date'', Str ''20-01-2024''])
         [Num (Finite 500), Num (Finite 10), NaN])"
    by (simp add: sample_dates select_def is_Str_def)
  ultimately obtain df where
    df: "load_data to_datetime_dayfirst sample_num_str to_numeric_decimal (Some ?raw) = Inr df"
    using load_data_returns [OF sample_lookup(1) sample_lookup(2)] by blast
  have num: "''Final_Line_Amount'' \<in> set numeric_cols" "''Quantity'' \<in> set numeric_cols"
    by (simp_all add: numeric_cols_def)
  from C6_loader_invariant [OF df] obtain raw raw_dates where
    raw: "raw = ?raw" and
    rd: "map_of (standardize_columns raw) ''Posting_Date'' = Some raw_dates" and
    pd: "map_of df ''Posting_Date'' = Some (map Stamp (List.map_filter to_datetime_dayfirst raw_dates))" and
    nm: "\<forall>c \<in> set numeric_cols.
           \<exists>xs. map_of (standardize_columns raw) c = Some xs \<and>
                map_of df c =
                  Some (map (\<lambda>x. fillna_cell (coerce_cell sample_num_str to_numeric_decimal x))
                          (select (map (\<lambda>x. to_datetime_dayfirst x \<noteq> None) raw_dates) xs))"
    by auto
  from rd have rd': "raw_dates = [Str ''05-01-2024'', Str ''not a date'', Str ''20-01-2024'']"
    unfolding raw by (simp add: sample_lookup)
  have "map_of df ''Posting_Date'' =
          Some [Stamp \<lparr>year = 2024, month = 1, day = 5\<rparr>, Stamp \<lparr>year = 2024, month = 1, day = 20\<rparr>]"
    using pd unfolding rd' by (simp add: sample_dates)
  moreover have "map_of df ''Final_Line_Amount'' = Some [Num (Finite 500), Num (Finite 0)]"
    using bspec [OF nm num(1)] unfolding rd' raw
    by (auto simp: sample_lookup sample_dates sample_cells select_def)
  moreover have "map_of df ''Quantity'' = Some [Num (Finite (2469 / 2)), Num (Finite 0)]"
    using bspec [OF nm num(2)] unfolding rd' raw
    by (auto simp: sample_lookup sample_dates sample_cells select_def)
  ultimately have "map_of df ''Posting_Date'' =
          Some [Stamp \<lparr>year = 2024, month = 1, day = 5\<rparr>, Stamp \<lparr>year = 2024, month = 1, day = 20\<rparr>] \<and>
        map_of df ''Final_Line_Amount'' = Some [Num (Finite 500), Num (Finite 0)] \<and>
        map_of df ''Quantity'' = Some [Num (Finite (2469 / 2)), Num (Finite 0)]"
    by blast
  with df show ?thesis by blast
qed

text \<open>
  C5. The coercion of lines 74 to 82 removes commas, strips and parses, with 0 for what
  does not parse (\<open>sample_cells\<close>), and reaches every declared column but one: when
  \<open>Final_Line_Amount\<close> holds an amount written with a thousands separator, the comparison
  of line 58 meets the string before the coercion does, and the loader ends in
  \<open>TypeError\<close> instead of reading 1,234.50 as 1234.50, whatever the numeric parser reads.
\<close>

theorem C5_final_line_amount_type_error:
  "load_data to_datetime_dayfirst num_str to_numeric (Some comma_csv) = Inl TypeError"
proof -
  have "list_ex is_Str
      (select (map (\<lambda>x. to_datetime_dayfirst x \<noteq> None)
         [Str ''05-01-2024'', Str ''not a date'', Str ''20-01-2024''])
         [Str ''1,234.50'', Str ''10'', Str ''980.00''])"
    by (simp add: sample_dates select_def is_Str_def)
  from load_data_TypeError [OF sample_lookup(1) sample_lookup(2) this]
  show ?thesis by (simp add: comma_csv_def)
qed

end
